theory Spec2Isabelle
  imports Main "HOL-Library.Word"
begin

section \<open>Values of the Go runtime and of the imported packages\<close>

text \<open>
  The package \<^verbatim>\<open>blobcache\<close> (file \<^verbatim>\<open>pkg/blobcache/blobcache.go\<close>) is embedded
  function by function. What it imports (\<^verbatim>\<open>os\<close>, \<^verbatim>\<open>path/filepath\<close>, \<^verbatim>\<open>fmt\<close>,
  \<^verbatim>\<open>github.com/pkg/errors\<close>, \<^verbatim>\<open>go-digest\<close>, the \<^verbatim>\<open>types\<close> and \<^verbatim>\<open>transports\<close>
  packages) is represented by the small definitions of this section; the operating system
  itself is a parameter (record \<open>os\<close> below), so that every theorem holds for every
  behaviour of the file system.
\<close>

type_synonym int64 = "64 word"

text \<open>An argument of a format string; formatting itself is not modelled: an error keeps its
  format string and its arguments.\<close>

datatype arg = ArgString string | ArgInt int

text \<open>
  Go's \<^verbatim>\<open>error\<close> interface value is \<open>error option\<close>, \<open>None\<close> being \<^verbatim>\<open>nil\<close>.
  \<open>Errno\<close> is \<^verbatim>\<open>syscall.Errno\<close>, \<open>ErrNotExist\<close> the sentinel \<^verbatim>\<open>os.ErrNotExist\<close>,
  \<open>PathError op path err\<close> is \<^verbatim>\<open>&os.PathError{Op, Path, Err}\<close>, \<open>Errorf\<close> the value of
  \<^verbatim>\<open>fmt.Errorf\<close>, and \<open>Wrapped cause format args\<close> the value of \<^verbatim>\<open>perrors.Wrap\<close> and
  \<^verbatim>\<open>perrors.Wrapf\<close> around a non-nil cause.
\<close>

datatype error =
    Errno nat
  | ErrNotExist
  | PathError string string error
  | Errorf string "arg list"
  | Wrapped error string "arg list"

definition ENOENT :: nat where
  "ENOENT = 2"

text \<open>\<^verbatim>\<open>os.underlyingError\<close>: one level of \<^verbatim>\<open>*PathError\<close> is removed.\<close>

fun underlyingError :: "error \<Rightarrow> error" where
  "underlyingError (PathError ope path err) = err"
| "underlyingError err = err"

text \<open>\<^verbatim>\<open>os.IsNotExist\<close>: false for \<^verbatim>\<open>nil\<close>; true when the underlying error is the sentinel
  or the errno \<^verbatim>\<open>ENOENT\<close>.\<close>

fun os_IsNotExist :: "error option \<Rightarrow> bool" where
  "os_IsNotExist None = False"
| "os_IsNotExist (Some err) =
     (case underlyingError err of
        ErrNotExist \<Rightarrow> True
      | Errno e \<Rightarrow> e = ENOENT
      | _ \<Rightarrow> False)"

text \<open>\<^verbatim>\<open>perrors.Wrap\<close> and \<^verbatim>\<open>perrors.Wrapf\<close> (github.com/pkg/errors): ``If err is nil,
  Wrap returns nil.''\<close>

fun perrors_Wrapf :: "error option \<Rightarrow> string \<Rightarrow> arg list \<Rightarrow> error option" where
  "perrors_Wrapf None format args = None"
| "perrors_Wrapf (Some err) format args = Some (Wrapped err format args)"

definition perrors_Wrap :: "error option \<Rightarrow> string \<Rightarrow> error option" where
  "perrors_Wrap err message = perrors_Wrapf err message []"

text \<open>\<^verbatim>\<open>digest.Digest\<close> is a Go string type and \<^verbatim>\<open>String()\<close> its conversion to string.\<close>

type_synonym Digest = string

definition Digest_String :: "Digest \<Rightarrow> string" where
  "Digest_String d = d"

text \<open>
  \<^verbatim>\<open>types.LayerCompression\<close> is a Go \<^verbatim>\<open>int\<close> with three named constants, declared in
  the \<^verbatim>\<open>types\<close> package in this order with \<^verbatim>\<open>iota\<close>. No arithmetic is done on it, and no
  theorem below depends on the three numbers.
\<close>

type_synonym LayerCompression = int

definition PreserveOriginal :: LayerCompression where
  "PreserveOriginal = 0"

definition Decompress :: LayerCompression where
  "Decompress = 1"

definition Compress :: LayerCompression where
  "Compress = 2"

text \<open>\<^verbatim>\<open>types.BlobInfo\<close>: the two fields that the package reads. A theorem about
  \<open>'a BlobInfo_scheme\<close> holds whatever the other fields of the descriptor are.\<close>

record BlobInfo =
  Digest :: Digest
  Size :: int64

text \<open>\<^verbatim>\<open>os.FileInfo\<close>, of which only \<^verbatim>\<open>Size()\<close> is called.\<close>

record FileInfo =
  FileInfo_Size :: int64

text \<open>\<^verbatim>\<open>types.ImageTransport\<close> and \<^verbatim>\<open>types.ImageReference\<close>: an interface value is the
  record of its methods. \<open>'n\<close> is \<^verbatim>\<open>reference.Named\<close>, \<open>'c\<close> is \<^verbatim>\<open>context.Context\<close>,
  \<open>'y\<close> is \<^verbatim>\<open>*types.SystemContext\<close>, and \<open>'r\<close> is the state of the remote side, which
  \<^verbatim>\<open>DeleteImage\<close> may change.\<close>

record ImageTransport =
  Name :: string

record ('n, 'c, 'y, 'r) ImageReference =
  Transport :: ImageTransport
  StringWithinTransport :: string
  DockerReference :: 'n
  PolicyConfigurationIdentity :: string
  PolicyConfigurationNamespaces :: "string list"
  DeleteImage :: "'c \<Rightarrow> 'y \<Rightarrow> 'r \<Rightarrow> error option \<times> 'r"

text \<open>\<^verbatim>\<open>transports.ImageName\<close>.\<close>

definition transports_ImageName :: "('n, 'c, 'y, 'r) ImageReference \<Rightarrow> string" where
  "transports_ImageName ref = Name (Transport ref) @ '':'' @ StringWithinTransport ref"

subsection \<open>The operating system\<close>

text \<open>
  The file system is a state of an arbitrary type \<open>'s\<close>, and the system is the record of
  what its calls answer in a state: \<^verbatim>\<open>stat\<close> gives an errno or the file's information,
  \<^verbatim>\<open>open\<close> an errno or success, reading a directory gives names and possibly an error,
  and \<^verbatim>\<open>RemoveAll\<close> an error or none, with the state it leaves. \<^verbatim>\<open>filepath.Join\<close> is a
  parameter as well. A world is a file-system state with the trace of the calls made so
  far.
\<close>

record 's os =
  filepath_Join :: "string \<Rightarrow> string \<Rightarrow> string"
  sys_stat :: "'s \<Rightarrow> string \<Rightarrow> nat + FileInfo"
  sys_open :: "'s \<Rightarrow> string \<Rightarrow> nat option"
  sys_readdirnames :: "'s \<Rightarrow> string \<Rightarrow> string list \<times> error option"
  sys_removeall :: "'s \<Rightarrow> string \<Rightarrow> error option \<times> 's"

datatype syscall =
    SysStat string
  | SysOpen string
  | SysReaddirnames string
  | SysRemoveAll string
  | SysClose string

record 's world =
  fs :: 's
  trace :: "syscall list"

definition log :: "syscall \<Rightarrow> 's world \<Rightarrow> 's world" where
  "log c w = w\<lparr>trace := trace w @ [c]\<rparr>"

text \<open>\<^verbatim>\<open>os.Stat\<close>: ``If there is an error, it will be of type *PathError.''\<close>

definition os_Stat :: "'s os \<Rightarrow> string \<Rightarrow> 's world \<Rightarrow> (error + FileInfo) \<times> 's world" where
  "os_Stat env name w =
     ((case sys_stat env (fs w) name of
         Inl e \<Rightarrow> Inl (PathError ''stat'' name (Errno e))
       | Inr fileInfo \<Rightarrow> Inr fileInfo),
      log (SysStat name) w)"

text \<open>\<^verbatim>\<open>os.Open\<close>, \<^verbatim>\<open>(*os.File).Readdirnames(-1)\<close>, \<^verbatim>\<open>(*os.File).Close\<close> and
  \<^verbatim>\<open>os.RemoveAll\<close>. An open file is represented by its name.\<close>

record File =
  File_name :: string

definition os_Open :: "'s os \<Rightarrow> string \<Rightarrow> 's world \<Rightarrow> (error + File) \<times> 's world" where
  "os_Open env name w =
     ((case sys_open env (fs w) name of
         Some e \<Rightarrow> Inl (PathError ''open'' name (Errno e))
       | None \<Rightarrow> Inr \<lparr>File_name = name\<rparr>),
      log (SysOpen name) w)"

definition File_Readdirnames ::
  "'s os \<Rightarrow> File \<Rightarrow> 's world \<Rightarrow> (string list \<times> error option) \<times> 's world" where
  "File_Readdirnames env f w =
     (sys_readdirnames env (fs w) (File_name f), log (SysReaddirnames (File_name f)) w)"

definition File_Close :: "File \<Rightarrow> 's world \<Rightarrow> 's world" where
  "File_Close f w = log (SysClose (File_name f)) w"

definition os_RemoveAll :: "'s os \<Rightarrow> string \<Rightarrow> 's world \<Rightarrow> error option \<times> 's world" where
  "os_RemoveAll env path w =
     (case sys_removeall env (fs w) path of
        (err, s') \<Rightarrow> (err, log (SysRemoveAll path) (w\<lparr>fs := s'\<rparr>)))"

section \<open>The package blobcache\<close>

record ('n, 'c, 'y, 'r) BlobCache =
  reference :: "('n, 'c, 'y, 'r) ImageReference"
  directory :: string
  compress :: LayerCompression

definition makeFilename :: "Digest \<Rightarrow> bool \<Rightarrow> string" where
  "makeFilename blobSum isConfig =
     (if isConfig then Digest_String blobSum @ ''.config''
      else Digest_String blobSum)"

text \<open>\<^verbatim>\<open>NewBlobCache\<close> makes no call of the operating system; it is given the world and
  returns it, so that this can be stated.\<close>

definition NewBlobCache ::
  "('n, 'c, 'y, 'r) ImageReference \<Rightarrow> string \<Rightarrow> LayerCompression \<Rightarrow> 's world
     \<Rightarrow> (error + ('n, 'c, 'y, 'r) BlobCache) \<times> 's world" where
  "NewBlobCache ref dir cmp w =
     (if dir = ''''
      then (Inl (Errorf ''error creating cache around reference %q: no directory specified''
                   [ArgString (transports_ImageName ref)]), w)
      else if cmp = Compress \<or> cmp = Decompress \<or> cmp = PreserveOriginal
      then (Inr \<lparr>reference = ref, directory = dir, compress = cmp\<rparr>, w)
      else (Inl (Errorf ''unhandled LayerCompression value %v'' [ArgInt cmp]), w))"

definition BlobCache_Transport :: "('n, 'c, 'y, 'r) BlobCache \<Rightarrow> ImageTransport" where
  "BlobCache_Transport b = Transport (reference b)"

definition BlobCache_StringWithinTransport :: "('n, 'c, 'y, 'r) BlobCache \<Rightarrow> string" where
  "BlobCache_StringWithinTransport b = StringWithinTransport (reference b)"

definition BlobCache_DockerReference :: "('n, 'c, 'y, 'r) BlobCache \<Rightarrow> 'n" where
  "BlobCache_DockerReference b = DockerReference (reference b)"

definition BlobCache_PolicyConfigurationIdentity :: "('n, 'c, 'y, 'r) BlobCache \<Rightarrow> string" where
  "BlobCache_PolicyConfigurationIdentity b = PolicyConfigurationIdentity (reference b)"

definition BlobCache_PolicyConfigurationNamespaces ::
  "('n, 'c, 'y, 'r) BlobCache \<Rightarrow> string list" where
  "BlobCache_PolicyConfigurationNamespaces b = PolicyConfigurationNamespaces (reference b)"

definition BlobCache_DeleteImage ::
  "('n, 'c, 'y, 'r) BlobCache \<Rightarrow> 'c \<Rightarrow> 'y \<Rightarrow> 'r \<Rightarrow> error option \<times> 'r" where
  "BlobCache_DeleteImage b ctx sys = DeleteImage (reference b) ctx sys"

text \<open>A \<^verbatim>\<open>*BlobCache\<close> used as a \<^verbatim>\<open>types.ImageReference\<close> (the package asserts the
  conversion): the interface value made of the six methods above.\<close>

definition BlobCache_ImageReference ::
  "('n, 'c, 'y, 'r) BlobCache \<Rightarrow> ('n, 'c, 'y, 'r) ImageReference" where
  "BlobCache_ImageReference b =
     \<lparr>Transport = BlobCache_Transport b,
      StringWithinTransport = BlobCache_StringWithinTransport b,
      DockerReference = BlobCache_DockerReference b,
      PolicyConfigurationIdentity = BlobCache_PolicyConfigurationIdentity b,
      PolicyConfigurationNamespaces = BlobCache_PolicyConfigurationNamespaces b,
      DeleteImage = BlobCache_DeleteImage b\<rparr>"

text \<open>
  The loop of \<^verbatim>\<open>HasBlob\<close> over \<^verbatim>\<open>[]bool{false, true}\<close>. The first branch of the
  \<open>case\<close> is \<^verbatim>\<open>err == nil\<close>, where the source tests the size and then, the size not
  matching, goes on to its second \<^verbatim>\<open>if\<close> with the nil error; the second branch is
  \<^verbatim>\<open>err != nil\<close>, where the first \<^verbatim>\<open>if\<close> is false.
\<close>

fun HasBlob_loop ::
  "'s os \<Rightarrow> ('n, 'c, 'y, 'r) BlobCache \<Rightarrow> 'a BlobInfo_scheme \<Rightarrow> bool list \<Rightarrow> 's world
     \<Rightarrow> (bool \<times> int64 \<times> error option) \<times> 's world" where
  "HasBlob_loop env b blobinfo [] w = ((False, - 1, None), w)"
| "HasBlob_loop env b blobinfo (isConfig # rest) w =
     (let filename = filepath_Join env (directory b) (makeFilename (Digest blobinfo) isConfig)
      in case os_Stat env filename w of
           (Inr fileInfo, w') \<Rightarrow>
             if Size blobinfo = - 1 \<or> Size blobinfo = FileInfo_Size fileInfo
             then ((True, FileInfo_Size fileInfo, None), w')
             else if \<not> os_IsNotExist None
             then ((False, - 1, perrors_Wrap None ''checking size''), w')
             else HasBlob_loop env b blobinfo rest w'
         | (Inl err, w') \<Rightarrow>
             if \<not> os_IsNotExist (Some err)
             then ((False, - 1, perrors_Wrap (Some err) ''checking size''), w')
             else HasBlob_loop env b blobinfo rest w')"

definition HasBlob ::
  "'s os \<Rightarrow> ('n, 'c, 'y, 'r) BlobCache \<Rightarrow> 'a BlobInfo_scheme \<Rightarrow> 's world
     \<Rightarrow> (bool \<times> int64 \<times> error option) \<times> 's world" where
  "HasBlob env b blobinfo w =
     (if Digest blobinfo = ''''
      then ((False, - 1, None), w)
      else HasBlob_loop env b blobinfo [False, True] w)"

definition Directory :: "('n, 'c, 'y, 'r) BlobCache \<Rightarrow> string" where
  "Directory b = directory b"

text \<open>The loop of \<^verbatim>\<open>ClearCache\<close> over the names read from the directory.\<close>

fun ClearCache_loop ::
  "'s os \<Rightarrow> ('n, 'c, 'y, 'r) BlobCache \<Rightarrow> string list \<Rightarrow> 's world
     \<Rightarrow> error option \<times> 's world" where
  "ClearCache_loop env b [] w = (None, w)"
| "ClearCache_loop env b (name # names) w =
     (let pathname = filepath_Join env (directory b) name
      in case os_RemoveAll env pathname w of
           (Some err, w') \<Rightarrow>
             (perrors_Wrapf (Some err) ''clearing cache for %q''
                [ArgString (transports_ImageName (BlobCache_ImageReference b))], w')
         | (None, w') \<Rightarrow> ClearCache_loop env b names w')"

text \<open>\<^verbatim>\<open>ClearCache\<close>. The deferred \<^verbatim>\<open>f.Close()\<close> runs on every return after the
  directory was opened.\<close>

definition ClearCache ::
  "'s os \<Rightarrow> ('n, 'c, 'y, 'r) BlobCache \<Rightarrow> 's world \<Rightarrow> error option \<times> 's world" where
  "ClearCache env b w =
     (case os_Open env (directory b) w of
        (Inl err, w1) \<Rightarrow> (Some err, w1)
      | (Inr f, w1) \<Rightarrow>
          (case File_Readdirnames env f w1 of
             ((names, Some err), w2) \<Rightarrow>
               (perrors_Wrapf (Some err) ''error reading directory %q''
                  [ArgString (directory b)], File_Close f w2)
           | ((names, None), w2) \<Rightarrow>
               (case ClearCache_loop env b names w2 of
                  (r, w3) \<Rightarrow> (r, File_Close f w3))))"

section \<open>Notions used to state the properties\<close>

text \<open>An error value made by \<^verbatim>\<open>perrors.Wrap\<close> or \<^verbatim>\<open>perrors.Wrapf\<close>.\<close>

fun wrapped :: "error option \<Rightarrow> bool" where
  "wrapped (Some (Wrapped cause format args)) = True"
| "wrapped err = False"

text \<open>The call of \<^verbatim>\<open>os.Stat\<close> that \<^verbatim>\<open>HasBlob\<close> makes for one filename form.\<close>

definition probe ::
  "'s os \<Rightarrow> ('n, 'c, 'y, 'r) BlobCache \<Rightarrow> 'a BlobInfo_scheme \<Rightarrow> bool \<Rightarrow> syscall" where
  "probe env b blobinfo isConfig =
     SysStat (filepath_Join env (directory b) (makeFilename (Digest blobinfo) isConfig))"

text \<open>
  A well-formed digest, after the grammar of go-digest
  (\<^verbatim>\<open>[a-z0-9]+(?:[.+_-][a-z0-9]+)*:[a-zA-Z0-9=_-]+\<close>, anchored): an algorithm made of
  lower-case alphanumeric components joined by single separators, a colon, and a
  non-empty encoded part.
\<close>

definition is_lower_alnum :: "char \<Rightarrow> bool" where
  "is_lower_alnum c = (c \<in> set ''abcdefghijklmnopqrstuvwxyz0123456789'')"

definition is_separator :: "char \<Rightarrow> bool" where
  "is_separator c = (c \<in> set ''.+_-'')"

definition is_encoded_char :: "char \<Rightarrow> bool" where
  "is_encoded_char c =
     (c \<in> set ''abcdefghijklmnopqrstuvwxyzABCDEFGHIJKLMNOPQRSTUVWXYZ0123456789=_-'')"

fun algorithm_ok :: "bool \<Rightarrow> string \<Rightarrow> bool" where
  "algorithm_ok prev [] = prev"
| "algorithm_ok prev (c # cs) =
     (if is_lower_alnum c then algorithm_ok True cs
      else is_separator c \<and> prev \<and> algorithm_ok False cs)"

definition wellformed_digest :: "Digest \<Rightarrow> bool" where
  "wellformed_digest d =
     (let algorithm = takeWhile (\<lambda>c. c \<noteq> CHR '':'') d;
          rest = dropWhile (\<lambda>c. c \<noteq> CHR '':'') d
      in algorithm_ok False algorithm \<and> rest \<noteq> [] \<and> tl rest \<noteq> [] \<and>
         list_all is_encoded_char (tl rest))"

text \<open>Removing the paths in order from a state of the file system: whether every removal
  succeeds, and the state that the removals leave.\<close>

fun removes_ok :: "'s os \<Rightarrow> 's \<Rightarrow> string list \<Rightarrow> bool" where
  "removes_ok env s [] = True"
| "removes_ok env s (path # paths) =
     (fst (sys_removeall env s path) = None \<and>
      removes_ok env (snd (sys_removeall env s path)) paths)"

fun fs_after :: "'s os \<Rightarrow> 's \<Rightarrow> string list \<Rightarrow> 's" where
  "fs_after env s [] = s"
| "fs_after env s (path # paths) = fs_after env (snd (sys_removeall env s path)) paths"

text \<open>The argument of the message of \<^verbatim>\<open>ClearCache\<close>: the image name of the store, which
  is the image name of the reference it wraps.\<close>

definition clear_message :: "('n, 'c, 'y, 'r) BlobCache \<Rightarrow> arg list" where
  "clear_message b =
     [ArgString (Name (Transport (reference b)) @ '':'' @ StringWithinTransport (reference b))]"

text \<open>Forwarding, in the words of the specification: a capability of the store is the
  same capability of the remote endpoint that the store wraps.\<close>

definition forwarded ::
  "(('n, 'c, 'y, 'r) ImageReference \<Rightarrow> 'a) \<Rightarrow> ('n, 'c, 'y, 'r) BlobCache \<Rightarrow> 'a" where
  "forwarded capability store = capability (reference store)"

subsection \<open>A file system in memory\<close>

text \<open>
  A concrete system on which the definitions are evaluated: a table from paths to either
  a size (an entry that exists) or an errno (an entry on which every call fails with
  it). A path that the table lacks does not exist. The directory is flat, as the layout
  of the cache is.
\<close>

type_synonym memfs = "(string \<times> (nat + int64)) list"

definition memfs_os :: "memfs os" where
  "memfs_os =
     \<lparr>filepath_Join = (\<lambda>dir name. dir @ ''/'' @ name),
      sys_stat = (\<lambda>s path. case map_of s path of
                     None \<Rightarrow> Inl ENOENT
                   | Some (Inl e) \<Rightarrow> Inl e
                   | Some (Inr n) \<Rightarrow> Inr \<lparr>FileInfo_Size = n\<rparr>),
      sys_open = (\<lambda>s path. case map_of s path of
                     None \<Rightarrow> Some ENOENT
                   | Some (Inl e) \<Rightarrow> Some e
                   | Some (Inr n) \<Rightarrow> None),
      sys_readdirnames = (\<lambda>s path.
                     (map (drop (length path + 1))
                        (filter (\<lambda>q. take (length path + 1) q = path @ ''/'') (map fst s)),
                      None)),
      sys_removeall = (\<lambda>s path. case map_of s path of
                     Some (Inl e) \<Rightarrow> (Some (PathError ''unlinkat'' path (Errno e)), s)
                   | _ \<Rightarrow> (None, filter (\<lambda>(q, v). q \<noteq> path \<and>
                                     take (length path + 1) q \<noteq> path @ ''/'') s))\<rparr>"

text \<open>The same system with a directory that cannot be listed.\<close>

definition memfs_unreadable :: "memfs os" where
  "memfs_unreadable = memfs_os\<lparr>sys_readdirnames := \<lambda>s path. ([], Some (Errno 5))\<rparr>"

definition ref0 :: "(unit, unit, unit, unit) ImageReference" where
  "ref0 =
     \<lparr>Transport = \<lparr>Name = ''docker''\<rparr>,
      StringWithinTransport = ''//busybox'',
      DockerReference = (),
      PolicyConfigurationIdentity = ''docker.io/library/busybox'',
      PolicyConfigurationNamespaces = [''docker.io/library'', ''docker.io''],
      DeleteImage = (\<lambda>ctx sys r. (None, r))\<rparr>"

definition cache0 :: "(unit, unit, unit, unit) BlobCache" where
  "cache0 = \<lparr>reference = ref0, directory = ''/c'', compress = PreserveOriginal\<rparr>"

definition world0 :: "memfs \<Rightarrow> memfs world" where
  "world0 s = \<lparr>fs = s, trace = []\<rparr>"

lemmas memfs_simps = memfs_os_def cache0_def world0_def ref0_def ENOENT_def

section \<open>Basic facts about the system calls\<close>

lemma fs_log [simp]: "fs (log c w) = fs w"
  by (simp add: log_def)

lemma trace_log [simp]: "trace (log c w) = trace w @ [c]"
  by (simp add: log_def)

lemma os_Stat_Inr [simp]:
  "sys_stat env (fs w) name = Inr fi \<Longrightarrow> os_Stat env name w = (Inr fi, log (SysStat name) w)"
  by (simp add: os_Stat_def)

lemma os_Stat_Inl [simp]:
  "sys_stat env (fs w) name = Inl e \<Longrightarrow>
   os_Stat env name w = (Inl (PathError ''stat'' name (Errno e)), log (SysStat name) w)"
  by (simp add: os_Stat_def)

lemma IsNotExist_stat [simp]:
  "os_IsNotExist (Some (PathError ope name (Errno e))) = (e = ENOENT)"
  by simp

lemma os_RemoveAll_fst [simp]:
  "fst (os_RemoveAll env path w) = fst (sys_removeall env (fs w) path)"
  by (simp add: os_RemoveAll_def split: prod.split)

lemma os_RemoveAll_fs [simp]:
  "fs (snd (os_RemoveAll env path w)) = snd (sys_removeall env (fs w) path)"
  by (simp add: os_RemoveAll_def split: prod.split)

lemma os_RemoveAll_trace [simp]:
  "trace (snd (os_RemoveAll env path w)) = trace w @ [SysRemoveAll path]"
  by (simp add: os_RemoveAll_def split: prod.split)

lemma fs_File_Close [simp]: "fs (File_Close f w) = fs w"
  by (simp add: File_Close_def)

lemma trace_File_Close [simp]: "trace (File_Close f w) = trace w @ [SysClose (File_name f)]"
  by (simp add: File_Close_def)

section \<open>The filename scheme\<close>

lemma wellformed_digest_no_config_suffix:
  assumes "wellformed_digest (x @ ''.config'')"
  shows False
proof -
  let ?P = "\<lambda>c. c \<noteq> CHR '':''"
  from assms have ne: "dropWhile ?P (x @ ''.config'') \<noteq> []"
    and enc: "list_all is_encoded_char (tl (dropWhile ?P (x @ ''.config'')))"
    by (simp_all add: wellformed_digest_def Let_def)
  from ne have "\<exists>c \<in> set (x @ ''.config''). \<not> ?P c"
    by simp
  then have colon: "CHR '':'' \<in> set x" by auto
  then have "dropWhile ?P (x @ ''.config'') = dropWhile ?P x @ ''.config''"
    by simp
  moreover from colon have "dropWhile ?P x \<noteq> []"
    by simp
  ultimately have "tl (dropWhile ?P (x @ ''.config'')) = tl (dropWhile ?P x) @ ''.config''"
    by simp
  with enc have "is_encoded_char CHR ''.''" by (simp add: list_all_iff)
  then show False by (simp add: is_encoded_char_def)
qed

text \<open>
  Claim C8. \<^verbatim>\<open>makeFilename\<close> is a function of the digest and the flag alone: for a
  config it is the digest's string followed by the fixed suffix \<^verbatim>\<open>.config\<close>, otherwise
  the digest's string; and two well-formed digests with their flags that give the same
  filename are the same digest with the same flag. (Without well-formedness the digest
  \<^verbatim>\<open>a\<close> as a config and the digest \<^verbatim>\<open>a.config\<close> as a blob share a filename.)
\<close>

theorem makeFilename_scheme:
  "makeFilename d True = Digest_String d @ ''.config'' \<and>
   makeFilename d False = Digest_String d \<and>
   (wellformed_digest d1 \<and> wellformed_digest d2 \<and>
    makeFilename d1 c1 = makeFilename d2 c2 \<longrightarrow> d1 = d2 \<and> c1 = c2)"
  using wellformed_digest_no_config_suffix [of d1] wellformed_digest_no_config_suffix [of d2]
  by (auto simp: makeFilename_def Digest_String_def)

theorem makeFilename_scheme_witness:
  "wellformed_digest ''sha256:ab'' \<and> wellformed_digest ''sha256:cd'' \<and>
   makeFilename ''sha256:ab'' True = ''sha256:ab.config'' \<and>
   makeFilename ''sha256:ab'' False = ''sha256:ab'' \<and>
   makeFilename ''sha256:ab'' True = makeFilename ''sha256:ab'' True \<and>
   makeFilename ''sha256:ab'' True \<noteq> makeFilename ''sha256:ab'' False \<and>
   makeFilename ''sha256:ab'' False \<noteq> makeFilename ''sha256:cd'' False"
  using makeFilename_scheme [of "''sha256:ab''" "''sha256:ab''" "''sha256:ab''" True True]
    makeFilename_scheme [of "''sha256:ab''" "''sha256:ab''" "''sha256:ab''" True False]
    makeFilename_scheme [of "''sha256:ab''" "''sha256:ab''" "''sha256:cd''" False False]
  by (simp add: wellformed_digest_def is_encoded_char_def is_lower_alnum_def is_separator_def
      makeFilename_def Digest_String_def)

section \<open>Facts about the iterations of HasBlob and ClearCache\<close>

lemma int64_succ_not_minus_one:
  fixes n :: int64
  assumes "0 \<le> sint n"
  shows "n + 1 \<noteq> - 1"
proof
  assume "n + 1 = - 1"
  then have "n = - 2" by (simp add: eq_neg_iff_add_eq_0 add.commute) 
  with assms show False by simp
qed

lemma HasBlob_loop_Cons_cases:
  "(\<exists>r. HasBlob_loop env b blobinfo (isConfig # rest) w = (r, log (probe env b blobinfo isConfig) w)) \<or>
   HasBlob_loop env b blobinfo (isConfig # rest) w =
     HasBlob_loop env b blobinfo rest (log (probe env b blobinfo isConfig) w)"
  by (auto simp: os_Stat_def probe_def Let_def split: sum.split)

lemma HasBlob_loop_frame:
  "fs (snd (HasBlob_loop env b blobinfo forms w)) = fs w \<and>
   (\<exists>k. trace (snd (HasBlob_loop env b blobinfo forms w)) =
          trace w @ map (probe env b blobinfo) (take k forms))"
proof (induction forms arbitrary: w)
  case Nil
  show ?case by simp
next
  case (Cons isConfig rest)
  let ?w = "log (probe env b blobinfo isConfig) w"
  from HasBlob_loop_Cons_cases [of env b blobinfo isConfig rest w]
  show ?case
  proof
    assume "\<exists>r. HasBlob_loop env b blobinfo (isConfig # rest) w = (r, ?w)"
    then obtain r where r: "HasBlob_loop env b blobinfo (isConfig # rest) w = (r, ?w)" ..
    have "trace ?w = trace w @ map (probe env b blobinfo) (take (Suc 0) (isConfig # rest))"
      by simp
    then show ?thesis unfolding r by (intro conjI exI [of _ "Suc 0"]) simp_all
  next
    assume c: "HasBlob_loop env b blobinfo (isConfig # rest) w =
               HasBlob_loop env b blobinfo rest ?w"
    from Cons.IH [of ?w] obtain k where
      f: "fs (snd (HasBlob_loop env b blobinfo rest ?w)) = fs ?w" and
      t: "trace (snd (HasBlob_loop env b blobinfo rest ?w)) =
          trace ?w @ map (probe env b blobinfo) (take k rest)"
      by blast
    from t have "trace (snd (HasBlob_loop env b blobinfo rest ?w)) =
          trace w @ map (probe env b blobinfo) (take (Suc k) (isConfig # rest))"
      by simp
    with f show ?thesis unfolding c by (intro conjI exI [of _ "Suc k"]) simp_all
  qed
qed

lemma HasBlob_loop_fs_only:
  "fs w1 = fs w2 \<Longrightarrow>
   fst (HasBlob_loop env b blobinfo forms w1) = fst (HasBlob_loop env b blobinfo forms w2)"
proof (induction forms arbitrary: w1 w2)
  case Nil
  show ?case by simp
next
  case (Cons isConfig rest)
  have "fs (log c w1) = fs (log c w2)" for c using Cons.prems by simp
  from Cons.IH [OF this] Cons.prems show ?case
    by (simp add: os_Stat_def Let_def split: sum.split)
qed

lemma ImageName_BlobCache:
  "[ArgString (transports_ImageName (BlobCache_ImageReference b))] = clear_message b"
  by (simp add: transports_ImageName_def BlobCache_ImageReference_def BlobCache_Transport_def
      BlobCache_StringWithinTransport_def clear_message_def)

lemma ClearCache_loop_step:
  "ClearCache_loop env b (name # names) w =
     (case fst (os_RemoveAll env (filepath_Join env (directory b) name) w) of
        Some err \<Rightarrow> (Some (Wrapped err ''clearing cache for %q'' (clear_message b)),
                     snd (os_RemoveAll env (filepath_Join env (directory b) name) w))
      | None \<Rightarrow> ClearCache_loop env b names
                  (snd (os_RemoveAll env (filepath_Join env (directory b) name) w)))"
  by (cases "os_RemoveAll env (filepath_Join env (directory b) name) w")
    (simp add: Let_def ImageName_BlobCache split: option.split)

lemma ClearCache_loop_all:
  "removes_ok env (fs w) (map (filepath_Join env (directory b)) names) \<Longrightarrow>
   fst (ClearCache_loop env b names w) = None \<and>
   fs (snd (ClearCache_loop env b names w)) =
     fs_after env (fs w) (map (filepath_Join env (directory b)) names) \<and>
   trace (snd (ClearCache_loop env b names w)) =
     trace w @ map SysRemoveAll (map (filepath_Join env (directory b)) names)"
proof (induction names arbitrary: w)
  case Nil
  show ?case by simp
next
  case (Cons name names)
  let ?w = "snd (os_RemoveAll env (filepath_Join env (directory b) name) w)"
  from Cons.prems have ok: "fst (sys_removeall env (fs w) (filepath_Join env (directory b) name)) = None"
    and rest: "removes_ok env (fs ?w) (map (filepath_Join env (directory b)) names)"
    by simp_all
  from Cons.IH [OF rest] ok show ?case
    by (simp add: ClearCache_loop_step del: ClearCache_loop.simps)
qed

lemma ClearCache_loop_first_failure:
  "removes_ok env (fs w) (map (filepath_Join env (directory b)) pre) \<Longrightarrow>
   sys_removeall env (fs_after env (fs w) (map (filepath_Join env (directory b)) pre))
     (filepath_Join env (directory b) name) = (Some err, s') \<Longrightarrow>
   fst (ClearCache_loop env b (pre @ name # post) w) =
     Some (Wrapped err ''clearing cache for %q'' (clear_message b)) \<and>
   fs (snd (ClearCache_loop env b (pre @ name # post) w)) = s' \<and>
   trace (snd (ClearCache_loop env b (pre @ name # post) w)) =
     trace w @ map SysRemoveAll (map (filepath_Join env (directory b)) (pre @ [name]))"
proof (induction pre arbitrary: w)
  case Nil
  then show ?case
    by (simp add: ClearCache_loop_step del: ClearCache_loop.simps)
next
  case (Cons p pre)
  let ?w = "snd (os_RemoveAll env (filepath_Join env (directory b) p) w)"
  from Cons.prems have ok: "fst (sys_removeall env (fs w) (filepath_Join env (directory b) p)) = None"
    and rest: "removes_ok env (fs ?w) (map (filepath_Join env (directory b)) pre)"
    and fail: "sys_removeall env (fs_after env (fs ?w) (map (filepath_Join env (directory b)) pre))
                 (filepath_Join env (directory b) name) = (Some err, s')"
    by simp_all
  from Cons.IH [OF rest fail] ok show ?case
    by (simp add: ClearCache_loop_step del: ClearCache_loop.simps)
qed

lemma ClearCache_loop_fs_only:
  "fs w1 = fs w2 \<Longrightarrow>
   fst (ClearCache_loop env b names w1) = fst (ClearCache_loop env b names w2) \<and>
   fs (snd (ClearCache_loop env b names w1)) = fs (snd (ClearCache_loop env b names w2))"
proof (induction names arbitrary: w1 w2)
  case Nil
  then show ?case by simp
next
  case (Cons name names)
  let ?p = "filepath_Join env (directory b) name"
  have "fs (snd (os_RemoveAll env ?p w1)) = fs (snd (os_RemoveAll env ?p w2))"
    using Cons.prems by simp
  from Cons.IH [OF this] Cons.prems show ?case
    by (simp add: ClearCache_loop_step del: ClearCache_loop.simps split: option.split)
qed

lemma ClearCache_unfold:
  "ClearCache env b w =
     (case sys_open env (fs w) (directory b) of
        Some e \<Rightarrow> (Some (PathError ''open'' (directory b) (Errno e)), log (SysOpen (directory b)) w)
      | None \<Rightarrow>
          (case snd (sys_readdirnames env (fs w) (directory b)) of
             Some err \<Rightarrow>
               (Some (Wrapped err ''error reading directory %q'' [ArgString (directory b)]),
                log (SysClose (directory b))
                  (log (SysReaddirnames (directory b)) (log (SysOpen (directory b)) w)))
           | None \<Rightarrow>
               (fst (ClearCache_loop env b (fst (sys_readdirnames env (fs w) (directory b)))
                       (log (SysReaddirnames (directory b)) (log (SysOpen (directory b)) w))),
                log (SysClose (directory b))
                  (snd (ClearCache_loop env b (fst (sys_readdirnames env (fs w) (directory b)))
                       (log (SysReaddirnames (directory b)) (log (SysOpen (directory b)) w)))))))"
  by (simp add: ClearCache_def os_Open_def File_Readdirnames_def File_Close_def
      split: option.split prod.split)

lemma ClearCache_fs_only:
  assumes "fs w1 = fs w2"
  shows "fst (ClearCache env b w1) = fst (ClearCache env b w2) \<and>
         fs (snd (ClearCache env b w1)) = fs (snd (ClearCache env b w2))"
proof -
  let ?w1 = "log (SysReaddirnames (directory b)) (log (SysOpen (directory b)) w1)"
  let ?w2 = "log (SysReaddirnames (directory b)) (log (SysOpen (directory b)) w2)"
  have "fs ?w1 = fs ?w2" using assms by simp
  note loop = ClearCache_loop_fs_only [OF this, of env b
      "fst (sys_readdirnames env (fs w2) (directory b))"]
  show ?thesis
    by (simp add: ClearCache_unfold assms loop split: option.split)
qed

lemma HasBlob_fs_only:
  "fs w1 = fs w2 \<Longrightarrow> fst (HasBlob env b blobinfo w1) = fst (HasBlob env b blobinfo w2)"
  using HasBlob_loop_fs_only [of w1 w2 env b blobinfo "[False, True]"]
  by (simp add: HasBlob_def)

section \<open>HasBlob\<close>

text \<open>
  Claim C1. Let the digest be non-empty and let the stat of its plain (non-config)
  filename in the cache directory succeed with a file of size \<open>n\<close>. Then \<^verbatim>\<open>HasBlob\<close> on
  the descriptor with size \<open>n\<close> returns \<open>(true, n, nil)\<close>; with size \<open>n + 1\<close> (in
  \<^verbatim>\<open>int64\<close>, \<open>n\<close> being a length, hence not negative) it returns \<open>(false, -1, nil)\<close>;
  and with size \<open>-1\<close> it returns \<open>(true, n, nil)\<close>, whatever \<open>n\<close> is. The other fields
  of the descriptor do not matter.
\<close>

theorem HasBlob_stored_blob:
  assumes "Digest blobinfo \<noteq> ''''"
    and "sys_stat env (fs w)
           (filepath_Join env (directory b) (makeFilename (Digest blobinfo) False)) = Inr fi"
  shows "fst (HasBlob env b (blobinfo\<lparr>Size := FileInfo_Size fi\<rparr>) w)
           = (True, FileInfo_Size fi, None) \<and>
         (0 \<le> sint (FileInfo_Size fi) \<longrightarrow>
          fst (HasBlob env b (blobinfo\<lparr>Size := FileInfo_Size fi + 1\<rparr>) w) = (False, - 1, None)) \<and>
         fst (HasBlob env b (blobinfo\<lparr>Size := - 1\<rparr>) w) = (True, FileInfo_Size fi, None)"
  using assms int64_succ_not_minus_one [of "FileInfo_Size fi"]
  by (simp add: HasBlob_def perrors_Wrap_def)

theorem HasBlob_stored_blob_witness:
  "fst (HasBlob memfs_os cache0 \<lparr>Digest = ''sha256:ab'', Size = 5\<rparr>
          (world0 [(''/c'', Inr 4096), (''/c/sha256:ab'', Inr 5)])) = (True, 5, None) \<and>
   fst (HasBlob memfs_os cache0 \<lparr>Digest = ''sha256:ab'', Size = 6\<rparr>
          (world0 [(''/c'', Inr 4096), (''/c/sha256:ab'', Inr 5)])) = (False, - 1, None) \<and>
   fst (HasBlob memfs_os cache0 \<lparr>Digest = ''sha256:ab'', Size = - 1\<rparr>
          (world0 [(''/c'', Inr 4096), (''/c/sha256:ab'', Inr 5)])) = (True, 5, None)"
  using HasBlob_stored_blob [of "\<lparr>Digest = ''sha256:ab'', Size = 0\<rparr>" memfs_os
      "world0 [(''/c'', Inr 4096), (''/c/sha256:ab'', Inr 5)]" cache0 "\<lparr>FileInfo_Size = 5\<rparr>"]
  by (simp add: memfs_simps makeFilename_def Digest_String_def)

text \<open>
  Claim C2, at the input where the code departs from it: the digest is stored in the
  plain form with size 5 and in the config form with size 7, and the descriptor has
  size 7. The stat of the plain form succeeds with another size; the code then reaches
  its second test with a nil error, which is not a not-exist error, and returns
  \<open>(false, -1, nil)\<close> (the wrap of nil being nil) after this single stat: the config
  form, whose size matches, is never probed.
\<close>

theorem HasBlob_config_behind_mismatching_plain:
  "HasBlob memfs_os cache0 \<lparr>Digest = ''sha256:ab'', Size = 7\<rparr>
     (world0 [(''/c/sha256:ab'', Inr 5), (''/c/sha256:ab.config'', Inr 7)]) =
   ((False, - 1, None),
    \<lparr>fs = [(''/c/sha256:ab'', Inr 5), (''/c/sha256:ab.config'', Inr 7)],
     trace = [SysStat ''/c/sha256:ab'']\<rparr>)"
  by (simp add: HasBlob_def os_Stat_def perrors_Wrap_def memfs_simps makeFilename_def
      Digest_String_def log_def Let_def)

text \<open>
  Claim C3. For a descriptor whose digest is the empty string, whatever its size and
  its other fields, the store and the file system, \<^verbatim>\<open>HasBlob\<close> returns
  \<open>(false, -1, nil)\<close> and leaves the world as it was: no call of the system is made.
\<close>

theorem HasBlob_empty_digest:
  "HasBlob env b (blobinfo\<lparr>Digest := ''''\<rparr>) w = ((False, - 1, None), w)"
  by (simp add: HasBlob_def)

text \<open>
  Claim C4. The digest being non-empty, \<^verbatim>\<open>HasBlob\<close> stats the plain form and, only when
  that path does not exist, the config form. When the stat of the plain form fails with
  an errno other than \<^verbatim>\<open>ENOENT\<close>, or the plain form does not exist and the stat of the
  config form fails with such an errno, \<^verbatim>\<open>HasBlob\<close> returns found = false, size = -1
  and a non-nil error made by \<^verbatim>\<open>perrors.Wrap\<close> with the message \<^verbatim>\<open>checking size\<close>
  around the \<^verbatim>\<open>*PathError\<close> of the stat, which holds the operation and the path; and
  no stat follows the failed one.
\<close>

theorem HasBlob_stat_failure:
  assumes "Digest blobinfo \<noteq> ''''"
    and "plain = filepath_Join env (directory b) (makeFilename (Digest blobinfo) False)"
    and "config = filepath_Join env (directory b) (makeFilename (Digest blobinfo) True)"
  shows "(sys_stat env (fs w) plain = Inl e \<and> e \<noteq> ENOENT \<longrightarrow>
            HasBlob env b blobinfo w =
              ((False, - 1, Some (Wrapped (PathError ''stat'' plain (Errno e)) ''checking size'' [])),
               log (SysStat plain) w) \<and>
            wrapped (snd (snd (fst (HasBlob env b blobinfo w))))) \<and>
         (sys_stat env (fs w) plain = Inl ENOENT \<and>
          sys_stat env (fs w) config = Inl e \<and> e \<noteq> ENOENT \<longrightarrow>
            HasBlob env b blobinfo w =
              ((False, - 1, Some (Wrapped (PathError ''stat'' config (Errno e)) ''checking size'' [])),
               log (SysStat config) (log (SysStat plain) w)) \<and>
            wrapped (snd (snd (fst (HasBlob env b blobinfo w)))))"
  using assms by (simp add: HasBlob_def perrors_Wrap_def)

theorem HasBlob_stat_failure_witness:
  "HasBlob memfs_os cache0 \<lparr>Digest = ''sha256:ab'', Size = 5\<rparr>
     (world0 [(''/c/sha256:ab'', Inl 13)]) =
   ((False, - 1,
     Some (Wrapped (PathError ''stat'' ''/c/sha256:ab'' (Errno 13)) ''checking size'' [])),
    \<lparr>fs = [(''/c/sha256:ab'', Inl 13)], trace = [SysStat ''/c/sha256:ab'']\<rparr>) \<and>
   HasBlob memfs_os cache0 \<lparr>Digest = ''sha256:ab'', Size = 5\<rparr>
     (world0 [(''/c/sha256:ab.config'', Inl 5)]) =
   ((False, - 1,
     Some (Wrapped (PathError ''stat'' ''/c/sha256:ab.config'' (Errno 5)) ''checking size'' [])),
    \<lparr>fs = [(''/c/sha256:ab.config'', Inl 5)],
     trace = [SysStat ''/c/sha256:ab'', SysStat ''/c/sha256:ab.config'']\<rparr>)"
  using
    HasBlob_stat_failure [of "\<lparr>Digest = ''sha256:ab'', Size = 5\<rparr>" "''/c/sha256:ab''"
      memfs_os cache0 "''/c/sha256:ab.config''" "world0 [(''/c/sha256:ab'', Inl 13)]" 13]
    HasBlob_stat_failure [of "\<lparr>Digest = ''sha256:ab'', Size = 5\<rparr>" "''/c/sha256:ab''"
      memfs_os cache0 "''/c/sha256:ab.config''" "world0 [(''/c/sha256:ab.config'', Inl 5)]" 5]
  by (simp add: memfs_simps makeFilename_def Digest_String_def log_def)

text \<open>
  Claim C9. \<^verbatim>\<open>HasBlob\<close> leaves the file system as it was, and the calls it adds to the
  trace are stats of the plain form and then possibly of the config form, nothing else.
  So what a later \<^verbatim>\<open>HasBlob\<close> or \<^verbatim>\<open>ClearCache\<close> returns, and the file system that a
  later \<^verbatim>\<open>ClearCache\<close> leaves, are the same as without the call. The store is a value
  that \<^verbatim>\<open>HasBlob\<close> reads and does not return: the method assigns to none of its fields.
\<close>

theorem HasBlob_read_only:
  "fs (snd (HasBlob env b blobinfo w)) = fs w \<and>
   (\<exists>k. trace (snd (HasBlob env b blobinfo w)) =
          trace w @ map (probe env b blobinfo) (take k [False, True])) \<and>
   fst (HasBlob env b' blobinfo' (snd (HasBlob env b blobinfo w))) =
     fst (HasBlob env b' blobinfo' w) \<and>
   fst (ClearCache env b' (snd (HasBlob env b blobinfo w))) = fst (ClearCache env b' w) \<and>
   fs (snd (ClearCache env b' (snd (HasBlob env b blobinfo w)))) =
     fs (snd (ClearCache env b' w))"
proof -
  have f: "fs (snd (HasBlob env b blobinfo w)) = fs w"
    using HasBlob_loop_frame [of env b blobinfo "[False, True]" w]
    by (simp add: HasBlob_def)
  have t: "\<exists>k. trace (snd (HasBlob env b blobinfo w)) =
          trace w @ map (probe env b blobinfo) (take k [False, True])"
  proof (cases "Digest blobinfo = ''''")
    case True
    then have "trace (snd (HasBlob env b blobinfo w)) =
          trace w @ map (probe env b blobinfo) (take 0 [False, True])"
      by (simp add: HasBlob_def)
    then show ?thesis ..
  next
    case False
    then show ?thesis
      using HasBlob_loop_frame [of env b blobinfo "[False, True]" w]
      by (simp add: HasBlob_def)
  qed
  from f t HasBlob_fs_only [OF f] ClearCache_fs_only [OF f] show ?thesis
    by blast
qed

text \<open>
  Claim C10. For a non-empty digest stored in both forms, \<^verbatim>\<open>HasBlob\<close> with descriptor
  size \<open>-1\<close> returns \<open>(true, s, nil)\<close> where \<open>s\<close> is the size of the plain entry, after
  the single stat of the plain form.
\<close>

theorem HasBlob_plain_precedence:
  assumes "Digest blobinfo \<noteq> ''''"
    and "sys_stat env (fs w)
           (filepath_Join env (directory b) (makeFilename (Digest blobinfo) False)) = Inr plain"
    and "sys_stat env (fs w)
           (filepath_Join env (directory b) (makeFilename (Digest blobinfo) True)) = Inr config"
  shows "HasBlob env b (blobinfo\<lparr>Size := - 1\<rparr>) w =
           ((True, FileInfo_Size plain, None),
            log (SysStat (filepath_Join env (directory b)
                            (makeFilename (Digest blobinfo) False))) w)"
  using assms by (simp add: HasBlob_def)

theorem HasBlob_plain_precedence_witness:
  "HasBlob memfs_os cache0 \<lparr>Digest = ''sha256:ab'', Size = - 1\<rparr>
     (world0 [(''/c/sha256:ab'', Inr 5), (''/c/sha256:ab.config'', Inr 7)]) =
   ((True, 5, None),
    \<lparr>fs = [(''/c/sha256:ab'', Inr 5), (''/c/sha256:ab.config'', Inr 7)],
     trace = [SysStat ''/c/sha256:ab'']\<rparr>)"
  using HasBlob_plain_precedence [of "\<lparr>Digest = ''sha256:ab'', Size = 3\<rparr>" memfs_os
      "world0 [(''/c/sha256:ab'', Inr 5), (''/c/sha256:ab.config'', Inr 7)]" cache0
      "\<lparr>FileInfo_Size = 5\<rparr>" "\<lparr>FileInfo_Size = 7\<rparr>"]
  by (simp add: memfs_simps makeFilename_def Digest_String_def log_def)

section \<open>NewBlobCache\<close>

text \<open>
  Claim C5. \<^verbatim>\<open>NewBlobCache\<close> returns an error when the directory is the empty string,
  and an error when the compression value is none of \<^verbatim>\<open>Compress\<close>, \<^verbatim>\<open>Decompress\<close>,
  \<^verbatim>\<open>PreserveOriginal\<close> (the error about the directory when both hold); on every other
  input it returns the store whose three fields are the reference, the directory and the
  compression value given. In every case the world is returned as it was: no directory
  is made and no call of the system happens.
\<close>

theorem NewBlobCache_result:
  "(dir = '''' \<longrightarrow>
      fst (NewBlobCache ref dir cmp w) =
        Inl (Errorf ''error creating cache around reference %q: no directory specified''
               [ArgString (transports_ImageName ref)])) \<and>
   (cmp \<noteq> Compress \<and> cmp \<noteq> Decompress \<and> cmp \<noteq> PreserveOriginal \<longrightarrow>
      (\<exists>err. fst (NewBlobCache ref dir cmp w) = Inl err) \<and>
      (dir \<noteq> '''' \<longrightarrow>
         fst (NewBlobCache ref dir cmp w) =
           Inl (Errorf ''unhandled LayerCompression value %v'' [ArgInt cmp]))) \<and>
   (dir \<noteq> '''' \<and> (cmp = Compress \<or> cmp = Decompress \<or> cmp = PreserveOriginal) \<longrightarrow>
      fst (NewBlobCache ref dir cmp w) =
        Inr \<lparr>reference = ref, directory = dir, compress = cmp\<rparr>) \<and>
   snd (NewBlobCache ref dir cmp w) = w"
  by (simp add: NewBlobCache_def)

theorem NewBlobCache_result_witness:
  "fst (NewBlobCache ref0 '''' PreserveOriginal (world0 [])) =
     Inl (Errorf ''error creating cache around reference %q: no directory specified''
            [ArgString ''docker://busybox'']) \<and>
   fst (NewBlobCache ref0 ''/tmp/x'' 999 (world0 [])) =
     Inl (Errorf ''unhandled LayerCompression value %v'' [ArgInt 999]) \<and>
   fst (NewBlobCache ref0 ''/c'' PreserveOriginal (world0 [])) = Inr cache0 \<and>
   fst (NewBlobCache ref0 ''/c'' Compress (world0 [])) =
     Inr \<lparr>reference = ref0, directory = ''/c'', compress = Compress\<rparr> \<and>
   snd (NewBlobCache ref0 ''/c'' Decompress (world0 [])) = world0 []"
  using NewBlobCache_result [of "''''" ref0 PreserveOriginal "world0 []"]
    NewBlobCache_result [of "''/tmp/x''" ref0 999 "world0 []"]
    NewBlobCache_result [of "''/c''" ref0 PreserveOriginal "world0 []"]
    NewBlobCache_result [of "''/c''" ref0 Compress "world0 []"]
    NewBlobCache_result [of "''/c''" ref0 Decompress "world0 []"]
  by (simp add: cache0_def transports_ImageName_def ref0_def Compress_def Decompress_def
      PreserveOriginal_def)

section \<open>Delegation to the wrapped reference\<close>

text \<open>
  Claim C7. Each of \<^verbatim>\<open>Transport\<close>, \<^verbatim>\<open>StringWithinTransport\<close>, \<^verbatim>\<open>DockerReference\<close>,
  \<^verbatim>\<open>PolicyConfigurationIdentity\<close>, \<^verbatim>\<open>PolicyConfigurationNamespaces\<close> and
  \<^verbatim>\<open>DeleteImage\<close> (with its context, its system configuration and the state of the
  remote side) on the store is the same operation on the wrapped reference with the
  same arguments; as an image reference, the store is the reference it wraps.
\<close>

theorem BlobCache_delegation:
  "BlobCache_Transport b = forwarded Transport b \<and>
   BlobCache_StringWithinTransport b = forwarded StringWithinTransport b \<and>
   BlobCache_DockerReference b = forwarded DockerReference b \<and>
   BlobCache_PolicyConfigurationIdentity b = forwarded PolicyConfigurationIdentity b \<and>
   BlobCache_PolicyConfigurationNamespaces b = forwarded PolicyConfigurationNamespaces b \<and>
   BlobCache_DeleteImage b ctx sys r = forwarded DeleteImage b ctx sys r \<and>
   BlobCache_ImageReference b = reference b"
proof -
  have "BlobCache_DeleteImage b = DeleteImage (reference b)"
    by (intro ext) (simp add: BlobCache_DeleteImage_def)
  then show ?thesis
    by (simp add: forwarded_def BlobCache_Transport_def BlobCache_StringWithinTransport_def
        BlobCache_DockerReference_def BlobCache_PolicyConfigurationIdentity_def
        BlobCache_PolicyConfigurationNamespaces_def BlobCache_ImageReference_def)
qed

section \<open>ClearCache\<close>

text \<open>
  Claim C6 as stated fails where it says that a failure to open the directory is
  wrapped: on a system where the directory does not exist, \<^verbatim>\<open>ClearCache\<close> returns the
  \<^verbatim>\<open>*PathError\<close> of \<^verbatim>\<open>os.Open\<close> itself, which is no value of \<^verbatim>\<open>perrors.Wrapf\<close>.
\<close>

theorem ClearCache_open_failure_not_wrapped:
  "fst (ClearCache memfs_os cache0 (world0 [])) = Some (PathError ''open'' ''/c'' (Errno ENOENT)) \<and>
   \<not> wrapped (fst (ClearCache memfs_os cache0 (world0 [])))"
  by (simp add: ClearCache_unfold memfs_simps)

text \<open>
  Claim C6, amended. With \<open>dir\<close> the directory of the store:
  \<^item> when opening \<open>dir\<close> fails, \<^verbatim>\<open>ClearCache\<close> returns the error of \<^verbatim>\<open>os.Open\<close> as it
    is, after this single call: nothing is listed or removed;
  \<^item> when listing fails, it returns the error wrapped with the message
    \<^verbatim>\<open>error reading directory %q\<close> and the directory; the file system is as before and
    no removal was attempted;
  \<^item> when every removal succeeds, it returns nil, having called \<^verbatim>\<open>os.RemoveAll\<close> on
    every listed name joined to \<open>dir\<close>, in listing order, and the file system is what
    these removals leave;
  \<^item> when the removals of the names \<open>pre\<close> succeed and that of the next name fails, it
    returns that error wrapped with the message \<^verbatim>\<open>clearing cache for %q\<close>; the calls of
    \<^verbatim>\<open>os.RemoveAll\<close> are those for \<open>pre\<close> and for the failing name, in order, none for
    the names after it, and the file system is the one that these calls leave: nothing
    removed is put back.
\<close>

theorem ClearCache_behaviour:
  fixes env :: "'s os" and b :: "('n, 'c, 'y, 'r) BlobCache"
  assumes "dir = directory b" and "paths = map (filepath_Join env dir)"
  shows
  "(sys_open env (fs w) dir = Some e \<longrightarrow>
      ClearCache env b w = (Some (PathError ''open'' dir (Errno e)), log (SysOpen dir) w)) \<and>
   (sys_open env (fs w) dir = None \<and> sys_readdirnames env (fs w) dir = (names, Some err) \<longrightarrow>
      fst (ClearCache env b w) =
        Some (Wrapped err ''error reading directory %q'' [ArgString dir]) \<and>
      fs (snd (ClearCache env b w)) = fs w \<and>
      trace (snd (ClearCache env b w)) =
        trace w @ [SysOpen dir, SysReaddirnames dir, SysClose dir]) \<and>
   (sys_open env (fs w) dir = None \<and> sys_readdirnames env (fs w) dir = (names, None) \<and>
    removes_ok env (fs w) (paths names) \<longrightarrow>
      fst (ClearCache env b w) = None \<and>
      fs (snd (ClearCache env b w)) = fs_after env (fs w) (paths names) \<and>
      trace (snd (ClearCache env b w)) =
        trace w @ [SysOpen dir, SysReaddirnames dir] @ map SysRemoveAll (paths names)
          @ [SysClose dir]) \<and>
   (sys_open env (fs w) dir = None \<and>
    sys_readdirnames env (fs w) dir = (pre @ name # post, None) \<and>
    removes_ok env (fs w) (paths pre) \<and>
    sys_removeall env (fs_after env (fs w) (paths pre)) (filepath_Join env dir name)
      = (Some err, s') \<longrightarrow>
      fst (ClearCache env b w) =
        Some (Wrapped err ''clearing cache for %q'' (clear_message b)) \<and>
      fs (snd (ClearCache env b w)) = s' \<and>
      trace (snd (ClearCache env b w)) =
        trace w @ [SysOpen dir, SysReaddirnames dir] @ map SysRemoveAll (paths (pre @ [name]))
          @ [SysClose dir])"
proof -
  let ?w = "log (SysReaddirnames (directory b)) (log (SysOpen (directory b)) w)"
  have fsw: "fs ?w = fs w" by simp
  have opn: "sys_open env (fs w) dir = Some e \<longrightarrow>
      ClearCache env b w = (Some (PathError ''open'' dir (Errno e)), log (SysOpen dir) w)"
    using assms by (simp add: ClearCache_unfold)
  have lst: "sys_open env (fs w) dir = None \<and>
      sys_readdirnames env (fs w) dir = (names, Some err) \<longrightarrow>
      fst (ClearCache env b w) =
        Some (Wrapped err ''error reading directory %q'' [ArgString dir]) \<and>
      fs (snd (ClearCache env b w)) = fs w \<and>
      trace (snd (ClearCache env b w)) =
        trace w @ [SysOpen dir, SysReaddirnames dir, SysClose dir]"
    using assms by (simp add: ClearCache_unfold)
  have all: "sys_open env (fs w) dir = None \<and> sys_readdirnames env (fs w) dir = (names, None) \<and>
    removes_ok env (fs w) (paths names) \<longrightarrow>
      fst (ClearCache env b w) = None \<and>
      fs (snd (ClearCache env b w)) = fs_after env (fs w) (paths names) \<and>
      trace (snd (ClearCache env b w)) =
        trace w @ [SysOpen dir, SysReaddirnames dir] @ map SysRemoveAll (paths names)
          @ [SysClose dir]"
    using assms ClearCache_loop_all [of env ?w b names]
    by (simp add: ClearCache_unfold)
  have fail: "sys_open env (fs w) dir = None \<and>
    sys_readdirnames env (fs w) dir = (pre @ name # post, None) \<and>
    removes_ok env (fs w) (paths pre) \<and>
    sys_removeall env (fs_after env (fs w) (paths pre)) (filepath_Join env dir name)
      = (Some err, s') \<longrightarrow>
      fst (ClearCache env b w) =
        Some (Wrapped err ''clearing cache for %q'' (clear_message b)) \<and>
      fs (snd (ClearCache env b w)) = s' \<and>
      trace (snd (ClearCache env b w)) =
        trace w @ [SysOpen dir, SysReaddirnames dir] @ map SysRemoveAll (paths (pre @ [name]))
          @ [SysClose dir]"
    using assms ClearCache_loop_first_failure [of env ?w b pre name err s' post]
    by (simp add: ClearCache_unfold)
  from opn lst all fail show ?thesis by blast
qed

theorem ClearCache_behaviour_witness:
  "ClearCache memfs_os cache0 (world0 []) =
     (Some (PathError ''open'' ''/c'' (Errno 2)), \<lparr>fs = [], trace = [SysOpen ''/c'']\<rparr>) \<and>
   fst (ClearCache memfs_unreadable cache0 (world0 [(''/c'', Inr 4096), (''/c/a'', Inr 5)])) =
     Some (Wrapped (Errno 5) ''error reading directory %q'' [ArgString ''/c'']) \<and>
   fs (snd (ClearCache memfs_unreadable cache0 (world0 [(''/c'', Inr 4096), (''/c/a'', Inr 5)]))) =
     [(''/c'', Inr 4096), (''/c/a'', Inr 5)] \<and>
   trace (snd (ClearCache memfs_unreadable cache0
                 (world0 [(''/c'', Inr 4096), (''/c/a'', Inr 5)]))) =
     [SysOpen ''/c'', SysReaddirnames ''/c'', SysClose ''/c''] \<and>
   fst (ClearCache memfs_os cache0
          (world0 [(''/c'', Inr 4096), (''/c/a'', Inr 5), (''/c/x'', Inr 1)])) = None \<and>
   fs (snd (ClearCache memfs_os cache0
          (world0 [(''/c'', Inr 4096), (''/c/a'', Inr 5), (''/c/x'', Inr 1)]))) =
     [(''/c'', Inr 4096)] \<and>
   trace (snd (ClearCache memfs_os cache0
          (world0 [(''/c'', Inr 4096), (''/c/a'', Inr 5), (''/c/x'', Inr 1)]))) =
     [SysOpen ''/c'', SysReaddirnames ''/c'', SysRemoveAll ''/c/a'', SysRemoveAll ''/c/x'',
      SysClose ''/c''] \<and>
   fst (ClearCache memfs_os cache0
          (world0 [(''/c'', Inr 4096), (''/c/a'', Inr 5), (''/c/b'', Inl 13), (''/c/x'', Inr 1)])) =
     Some (Wrapped (PathError ''unlinkat'' ''/c/b'' (Errno 13)) ''clearing cache for %q''
             [ArgString ''docker://busybox'']) \<and>
   fs (snd (ClearCache memfs_os cache0
          (world0 [(''/c'', Inr 4096), (''/c/a'', Inr 5), (''/c/b'', Inl 13), (''/c/x'', Inr 1)]))) =
     [(''/c'', Inr 4096), (''/c/b'', Inl 13), (''/c/x'', Inr 1)] \<and>
   trace (snd (ClearCache memfs_os cache0
          (world0 [(''/c'', Inr 4096), (''/c/a'', Inr 5), (''/c/b'', Inl 13), (''/c/x'', Inr 1)]))) =
     [SysOpen ''/c'', SysReaddirnames ''/c'', SysRemoveAll ''/c/a'', SysRemoveAll ''/c/b'',
      SysClose ''/c'']"
  using
    ClearCache_behaviour [where env = memfs_os and b = cache0 and dir = "''/c''"
      and paths = "map (\<lambda>name. ''/c/'' @ name)" and w = "world0 []" and e = 2]
    ClearCache_behaviour [where env = memfs_unreadable and b = cache0 and dir = "''/c''"
      and paths = "map (\<lambda>name. ''/c/'' @ name)"
      and w = "world0 [(''/c'', Inr 4096), (''/c/a'', Inr 5)]"
      and names = "[]" and err = "Errno 5"]
    ClearCache_behaviour [where env = memfs_os and b = cache0 and dir = "''/c''"
      and paths = "map (\<lambda>name. ''/c/'' @ name)"
      and w = "world0 [(''/c'', Inr 4096), (''/c/a'', Inr 5), (''/c/x'', Inr 1)]"
      and names = "[''a'', ''x'']"]
    ClearCache_behaviour [where env = memfs_os and b = cache0 and dir = "''/c''"
      and paths = "map (\<lambda>name. ''/c/'' @ name)"
      and w = "world0 [(''/c'', Inr 4096), (''/c/a'', Inr 5), (''/c/b'', Inl 13),
                       (''/c/x'', Inr 1)]"
      and pre = "[''a'']" and name = "''b''" and post = "[''x'']"
      and err = "PathError ''unlinkat'' ''/c/b'' (Errno 13)"
      and s' = "[(''/c'', Inr 4096), (''/c/b'', Inl 13), (''/c/x'', Inr 1)]"]
  by (simp add: memfs_unreadable_def memfs_simps log_def clear_message_def)

end
